theory Spec2Isabelle
  imports Main "HOL-Library.AList"
begin

section \<open>Data model of the attendance portal\<close>

text \<open>
  Times are JavaScript epoch milliseconds (\<^verbatim>\<open>Date.getTime()\<close>), modelled as \<open>int\<close>.
  Firestore documents are modelled as records holding the fields that the attendance
  functions read or write; fields that are only copied along (names, e-mail addresses,
  device information) are left out.
\<close>

type_synonym time = int

text \<open>
  The fields shared by the QR payload (\<^verbatim>\<open>qrDataObj\<close>) and by the \<^verbatim>\<open>attendanceData\<close> object
  that \<^verbatim>\<open>submitAttendance\<close> copies from the scanned payload. A missing string field and an
  empty string are both falsy in JavaScript and are both modelled by the empty string.
\<close>

record baseSessionData =
  sessionId :: string
  facultyId :: string
  school :: string
  batch :: string
  subject :: string
  periods :: int

text \<open>
  The \<^verbatim>\<open>timestamp\<close> field of a decoded payload as \<^verbatim>\<open>onScanSuccess\<close> sees it:
  missing or falsy, present but not a date (\<^verbatim>\<open>new Date(x).getTime()\<close> is \<^verbatim>\<open>NaN\<close>),
  or a date with its epoch milliseconds.
\<close>

datatype timestamp_field = TsMissing | TsInvalid | TsAt time

text \<open>The rotation-specific fields that \<^verbatim>\<open>generateQRWithEntropy\<close> adds to a payload.\<close>

record rotationData =
  rotationIndex :: nat
  rotationSalt :: string
  randomSalt :: string
  microseconds :: string
  checksum :: string

record qrDataObj = baseSessionData +
  timestamp :: timestamp_field
  qrExpiresAt :: "time option"
  rotation :: "rotationData option"

record attendanceData = baseSessionData +
  studentId :: string
  studentName :: string
  photoUrl :: string

text \<open>A document of the \<^verbatim>\<open>attendance\<close> collection: the submitted data with the time of writing.\<close>

record attendanceDoc = attendanceData +
  markedAt :: time

text \<open>An element of a session's \<^verbatim>\<open>studentsPresent\<close> array.\<close>

record presentEntry =
  peStudentId :: string
  peStudentName :: string
  peMarkedAt :: time
  pePhotoUrl :: string

text \<open>
  The \<^verbatim>\<open>sessionData\<close> object that the callers of \<^verbatim>\<open>createAttendanceSession\<close> build
  (\<^verbatim>\<open>sessionFacultyId\<close> is its \<^verbatim>\<open>facultyId\<close>), and the stored session document, which is the
  spread of \<^verbatim>\<open>sessionData\<close> followed by the fields the service sets. Fields a document may
  lack are options.
\<close>

record sessionData =
  sessionFacultyId :: string
  expiresAt :: "time option"

record session = sessionData +
  createdAt :: time
  isActive :: bool
  qrCodeGenerated :: bool
  studentsPresent :: "presentEntry list option"
  totalStudents :: int
  totalPresent :: "nat option"
  lastUpdated :: "time option"
  deactivatedAt :: "time option"
  qrCodeUrl :: "string option"

text \<open>
  The database: the \<^verbatim>\<open>attendance_sessions\<close> collection as an association list from document
  identifiers to documents, and the \<^verbatim>\<open>attendance\<close> collection as the list of its documents in
  the order they were added (their generated identifiers are never read).
\<close>

record db =
  sessions :: "(string \<times> session) list"
  attendance :: "attendanceDoc list"

text \<open>
  What a service call takes from its surroundings: the clock reading, the identifier that
  \<^verbatim>\<open>addDoc\<close> generates, and whether a Firestore or Storage call of this invocation throws
  (the \<^verbatim>\<open>catch\<close> branch of every service function).
\<close>

record env =
  now :: time
  newId :: string
  addDocFails :: bool
  getDocFails :: bool
  updateDocFails :: bool
  getDocsFails :: bool
  uploadFails :: bool

text \<open>The returned object: \<^verbatim>\<open>{ success: true, ... }\<close> or \<^verbatim>\<open>{ success: false, error }\<close>.\<close>

datatype 'a result = Success 'a | Failure

section \<open>The Firestore primitives\<close>

definition getDoc :: "(string \<times> session) list \<Rightarrow> string \<Rightarrow> session option" where
  "getDoc st i = map_of st i"

text \<open>\<^verbatim>\<open>updateDoc\<close> rewrites an existing document and throws when there is none.\<close>

definition updateDoc ::
  "string \<Rightarrow> (session \<Rightarrow> session) \<Rightarrow> (string \<times> session) list \<Rightarrow> (string \<times> session) list option" where
  "updateDoc i f st =
     (case map_of st i of None \<Rightarrow> None | Some s \<Rightarrow> Some (AList.update i (f s) st))"

section \<open>The attendance service (services/firebase.js)\<close>

definition createAttendanceSession :: "env \<Rightarrow> sessionData \<Rightarrow> db \<Rightarrow> string result \<times> db" where
  "createAttendanceSession e sd d =
     (if addDocFails e then (Failure, d)
      else (Success (newId e),
            d\<lparr>sessions := AList.update (newId e)
                 \<lparr>sessionFacultyId = sessionFacultyId sd, expiresAt = expiresAt sd,
                  createdAt = now e, isActive = True, qrCodeGenerated = True,
                  studentsPresent = Some [], totalStudents = 0, totalPresent = None,
                  lastUpdated = None, deactivatedAt = None, qrCodeUrl = None\<rparr>
                 (sessions d)\<rparr>))"

definition newAttendanceDoc :: "env \<Rightarrow> attendanceData \<Rightarrow> attendanceDoc" where
  "newAttendanceDoc e a =
     \<lparr>sessionId = sessionId a, facultyId = facultyId a, school = school a, batch = batch a,
      subject = subject a, periods = periods a, studentId = studentId a,
      studentName = studentName a, photoUrl = photoUrl a, markedAt = now e\<rparr>"

definition newPresentEntry :: "env \<Rightarrow> attendanceData \<Rightarrow> presentEntry" where
  "newPresentEntry e a =
     \<lparr>peStudentId = studentId a, peStudentName = studentName a, peMarkedAt = now e,
      pePhotoUrl = photoUrl a\<rparr>"

text \<open>\<^verbatim>\<open>sessionData.studentsPresent || []\<close>\<close>

definition presentList :: "session \<Rightarrow> presentEntry list" where
  "presentList s = (case studentsPresent s of None \<Rightarrow> [] | Some xs \<Rightarrow> xs)"

text \<open>
  \<^verbatim>\<open>markAttendance\<close>: the attendance document is added first; then, for a truthy
  \<^verbatim>\<open>sessionId\<close>, the session is read and, when it exists and holds no entry of this student,
  rewritten with the student appended and \<^verbatim>\<open>totalPresent\<close> set to the new length.
\<close>

definition markAttendance :: "env \<Rightarrow> attendanceData \<Rightarrow> db \<Rightarrow> unit result \<times> db" where
  "markAttendance e a d =
     (if addDocFails e then (Failure, d)
      else
        let d1 = d\<lparr>attendance := attendance d @ [newAttendanceDoc e a]\<rparr> in
        if sessionId a = [] then (Success (), d1)
        else if getDocFails e then (Failure, d1)
        else
          (case getDoc (sessions d1) (sessionId a) of
             None \<Rightarrow> (Success (), d1)
           | Some s \<Rightarrow>
               if list_ex (\<lambda>x. peStudentId x = studentId a) (presentList s) then (Success (), d1)
               else if updateDocFails e then (Failure, d1)
               else
                 let sp = presentList s @ [newPresentEntry e a] in
                 (case updateDoc (sessionId a)
                         (\<lambda>s. s\<lparr>studentsPresent := Some sp, totalPresent := Some (length sp),
                                lastUpdated := Some (now e)\<rparr>)
                         (sessions d1) of
                    None \<Rightarrow> (Failure, d1)
                  | Some st \<Rightarrow> (Success (), d1\<lparr>sessions := st\<rparr>))))"

text \<open>
  The three requests that one \<^verbatim>\<open>markAttendance\<close> call awaits, each a step of its own:
  \<^verbatim>\<open>addDoc\<close> of the attendance document; \<^verbatim>\<open>getDoc\<close> of the session, giving the snapshot the
  rest of the call works on (\<open>None\<close> when \<^verbatim>\<open>sessionDoc.exists()\<close> is false); and, for a
  snapshot without this student, \<^verbatim>\<open>updateDoc\<close> with the whole array built from the snapshot.
  Firestore serves other clients between these requests; the session read and written is then
  not the same state of the document.
\<close>

definition markAdd :: "env \<Rightarrow> attendanceData \<Rightarrow> db \<Rightarrow> unit result \<times> db" where
  "markAdd e a d =
     (if addDocFails e then (Failure, d)
      else (Success (), d\<lparr>attendance := attendance d @ [newAttendanceDoc e a]\<rparr>))"

definition markRead :: "env \<Rightarrow> attendanceData \<Rightarrow> db \<Rightarrow> session option result" where
  "markRead e a d = (if getDocFails e then Failure else Success (getDoc (sessions d) (sessionId a)))"

definition markWrite :: "env \<Rightarrow> attendanceData \<Rightarrow> session option \<Rightarrow> db \<Rightarrow> unit result \<times> db" where
  "markWrite e a snapshot d =
     (case snapshot of
        None \<Rightarrow> (Success (), d)
      | Some s \<Rightarrow>
          if list_ex (\<lambda>x. peStudentId x = studentId a) (presentList s) then (Success (), d)
          else if updateDocFails e then (Failure, d)
          else
            let sp = presentList s @ [newPresentEntry e a] in
            (case updateDoc (sessionId a)
                    (\<lambda>s. s\<lparr>studentsPresent := Some sp, totalPresent := Some (length sp),
                           lastUpdated := Some (now e)\<rparr>)
                    (sessions d) of
               None \<Rightarrow> (Failure, d)
             | Some st \<Rightarrow> (Success (), d\<lparr>sessions := st\<rparr>)))"

definition deactivateSession :: "env \<Rightarrow> string \<Rightarrow> db \<Rightarrow> unit result \<times> db" where
  "deactivateSession e i d =
     (if updateDocFails e then (Failure, d)
      else
        (case updateDoc i (\<lambda>s. s\<lparr>isActive := False, deactivatedAt := Some (now e)\<rparr>) (sessions d) of
           None \<Rightarrow> (Failure, d)
         | Some st \<Rightarrow> (Success (), d\<lparr>sessions := st\<rparr>)))"

text \<open>\<^verbatim>\<open>saveQRCodeToStorage\<close>: after the upload, the session gets the image's URL.\<close>

definition saveQRCodeToStorage :: "env \<Rightarrow> string \<Rightarrow> string \<Rightarrow> db \<Rightarrow> string result \<times> db" where
  "saveQRCodeToStorage e url i d =
     (if uploadFails e then (Failure, d)
      else if updateDocFails e then (Failure, d)
      else
        (case updateDoc i (\<lambda>s. s\<lparr>qrCodeUrl := Some url, qrCodeGenerated := True\<rparr>) (sessions d) of
           None \<Rightarrow> (Failure, d)
         | Some st \<Rightarrow> (Success url, d\<lparr>sessions := st\<rparr>)))"

text \<open>
  The expiration time that \<^verbatim>\<open>getActiveSessions\<close> derives for a document:
  \<^verbatim>\<open>data.expiresAt?.toDate() || new Date(data.createdAt.toDate().getTime() + 30000)\<close>.
\<close>

definition expirationTime :: "session \<Rightarrow> time" where
  "expirationTime s = (case expiresAt s of Some t \<Rightarrow> t | None \<Rightarrow> createdAt s + 30000)"

text \<open>The unawaited \<^verbatim>\<open>updateDoc(doc.ref, { isActive: false })\<close> of the auto-expiry.\<close>

definition expireDoc :: "env \<Rightarrow> string \<Rightarrow> (string \<times> session) list \<Rightarrow> (string \<times> session) list" where
  "expireDoc e i st =
     (if updateDocFails e then st
      else (case updateDoc i (\<lambda>s. s\<lparr>isActive := False\<rparr>) st of None \<Rightarrow> st | Some st' \<Rightarrow> st'))"

text \<open>
  \<^verbatim>\<open>getActiveSessions\<close>: the query selects the faculty's documents with
  \<^verbatim>\<open>isActive == true\<close>, newest first; those whose expiration time is still ahead are returned,
  the others are marked inactive.
\<close>

definition getActiveSessions ::
  "env \<Rightarrow> string \<Rightarrow> db \<Rightarrow> (string \<times> session) list result \<times> db" where
  "getActiveSessions e fid d =
     (if getDocsFails e then (Failure, d)
      else
        let snapshot = rev (sort_key (\<lambda>(i, s). createdAt s)
                         (filter (\<lambda>(i, s). sessionFacultyId s = fid \<and> isActive s) (sessions d)));
            live = filter (\<lambda>(i, s). now e < expirationTime s) snapshot;
            dead = filter (\<lambda>(i, s). \<not> now e < expirationTime s) snapshot
        in (Success live, d\<lparr>sessions := fold (\<lambda>(i, s). expireDoc e i) dead (sessions d)\<rparr>))"

text \<open>A call whose Firestore requests all go through.\<close>

definition noFaults :: "env \<Rightarrow> bool" where
  "noFaults e = (\<not> addDocFails e \<and> \<not> getDocFails e \<and> \<not> updateDocFails e)"



text \<open>The student identifiers of a session's \<^verbatim>\<open>studentsPresent\<close> array.\<close>

definition presentIds :: "session \<Rightarrow> string list" where
  "presentIds s = map peStudentId (presentList s)"

text \<open>The operations of the service on the database, and a sequence of them.\<close>

datatype operation =
    CreateSession env sessionData
  | MarkAttendance env attendanceData
  | SaveQRCode env string string
  | GetActiveSessions env string
  | DeactivateSession env string

fun applyOperation :: "operation \<Rightarrow> db \<Rightarrow> db" where
  "applyOperation (CreateSession e sd) d = snd (createAttendanceSession e sd d)"
| "applyOperation (MarkAttendance e a) d = snd (markAttendance e a d)"
| "applyOperation (SaveQRCode e url i) d = snd (saveQRCodeToStorage e url i d)"
| "applyOperation (GetActiveSessions e fid) d = snd (getActiveSessions e fid d)"
| "applyOperation (DeactivateSession e i) d = snd (deactivateSession e i d)"

fun runOperations :: "operation list \<Rightarrow> db \<Rightarrow> db" where
  "runOperations [] d = d"
| "runOperations (x # xs) d = runOperations xs (applyOperation x d)"

text \<open>
  \<^verbatim>\<open>addDoc\<close> generates the identifier of the document it adds; Firestore's generated
  identifiers are taken to be unused ones. \<open>freshIds\<close> says so of every session creation
  of a sequence of operations.
\<close>

fun freshIds :: "operation list \<Rightarrow> db \<Rightarrow> bool" where
  "freshIds [] d = True"
| "freshIds (x # xs) d =
     ((case x of CreateSession e sd \<Rightarrow> getDoc (sessions d) (newId e) = None | _ \<Rightarrow> True)
      \<and> freshIds xs (applyOperation x d))"

text \<open>
  A session counts as active for \<^verbatim>\<open>getActiveSessions\<close> at time \<open>t\<close> when its flag is set and
  its expiration time is still ahead (\<^verbatim>\<open>expiresAt > now\<close>).
\<close>

definition sessionActive :: "time \<Rightarrow> session \<Rightarrow> bool" where
  "sessionActive t s = (isActive s \<and> t < expirationTime s)"

section \<open>The online generator (components/faculty/QRGenerator.jsx)\<close>

text \<open>
  \<^verbatim>\<open>generateQRCode\<close>: \<open>form\<close> holds the selected school, batch, subject and number of
  periods (0 for no selection) and the faculty's \<^verbatim>\<open>user.uid\<close> as \<open>facultyId\<close>; \<open>t\<close> is the clock
  read for \<^verbatim>\<open>sessionData.expiresAt\<close>, \<open>t'\<close> the later one for the payload; \<open>e\<close> and \<open>e'\<close>
  serve the calls of \<^verbatim>\<open>createAttendanceSession\<close> and \<^verbatim>\<open>saveQRCodeToStorage\<close>.
  A failing \<^verbatim>\<open>saveQRCodeToStorage\<close> is only logged.
\<close>

definition generateQRCode ::
  "time \<Rightarrow> env \<Rightarrow> time \<Rightarrow> env \<Rightarrow> string \<Rightarrow> baseSessionData \<Rightarrow> db \<Rightarrow> qrDataObj option \<times> db" where
  "generateQRCode t e t' e' url form d =
     (if school form = [] \<or> batch form = [] \<or> subject form = [] \<or> periods form = 0 then (None, d)
      else if facultyId form = [] then (None, d)
      else
        (case createAttendanceSession e
                \<lparr>sessionFacultyId = facultyId form, expiresAt = Some (t + 30000)\<rparr> d of
           (Failure, d1) \<Rightarrow> (None, d1)
         | (Success i, d1) \<Rightarrow>
             (Some \<lparr>sessionId = i, facultyId = facultyId form, school = school form,
                    batch = batch form, subject = subject form, periods = periods form,
                    timestamp = TsAt t', qrExpiresAt = Some (t' + 30000), rotation = None\<rparr>,
              snd (saveQRCodeToStorage e' url i d1))))"

section \<open>The scanner (components/student/QRScanner.jsx)\<close>

text \<open>
  What \<^verbatim>\<open>onScanSuccess\<close> does with a decoded text: show the confirmation step for the
  payload, or one of its two error messages.
\<close>

datatype scanOutcome = Scanned qrDataObj | ExpiredQR | InvalidQR

text \<open>
  \<^verbatim>\<open>onScanSuccess\<close> at clock reading \<open>t\<close>. The argument is the result of \<^verbatim>\<open>JSON.parse\<close>:
  \<open>None\<close> when parsing throws or the value has no properties. The test
  \<^verbatim>\<open>(now - qrTime) / 1000 > 30\<close> is \<open>30000 < t - qt\<close> on milliseconds, and it is false
  when \<^verbatim>\<open>qrTime\<close> is \<^verbatim>\<open>NaN\<close>.
\<close>

definition onScanSuccess :: "time \<Rightarrow> qrDataObj option \<Rightarrow> scanOutcome" where
  "onScanSuccess t decoded =
     (case decoded of
        None \<Rightarrow> InvalidQR
      | Some q \<Rightarrow>
          if sessionId q = [] \<or> facultyId q = [] \<or> timestamp q = TsMissing then InvalidQR
          else
            (case timestamp q of
               TsAt qt \<Rightarrow> if 30000 < t - qt then ExpiredQR else Scanned q
             | _ \<Rightarrow> Scanned q))"

text \<open>
  \<^verbatim>\<open>submitAttendance\<close> for the student \<open>uid\<close>, \<open>name\<close> with the scanned payload \<open>q\<close>: the
  photo is uploaded (giving \<open>url\<close>), then the attendance is marked.
\<close>

definition submitAttendance ::
  "env \<Rightarrow> string \<Rightarrow> string \<Rightarrow> string \<Rightarrow> qrDataObj \<Rightarrow> db \<Rightarrow> unit result \<times> db" where
  "submitAttendance e uid name url q d =
     (if uploadFails e then (Failure, d)
      else markAttendance e
             \<lparr>sessionId = sessionId q, facultyId = facultyId q, school = school q,
              batch = batch q, subject = subject q, periods = periods q,
              studentId = uid, studentName = name, photoUrl = url\<rparr> d)"

section \<open>The rotating generator (components/faculty/OfflineQRGenerator.jsx)\<close>

text \<open>\<^verbatim>\<open>btoa\<close>, the browser's Base64 encoding of a string of bytes.\<close>

definition b64digit :: "nat \<Rightarrow> char" where
  "b64digit n = ''ABCDEFGHIJKLMNOPQRSTUVWXYZabcdefghijklmnopqrstuvwxyz0123456789+/'' ! n"

fun btoa :: "string \<Rightarrow> string" where
  "btoa [] = []"
| "btoa [a] =
     (let x = of_char a :: nat
      in [b64digit (x div 4), b64digit (x mod 4 * 16), CHR ''='', CHR ''=''])"
| "btoa [a, b] =
     (let x = of_char a :: nat; y = of_char b :: nat
      in [b64digit (x div 4), b64digit (x mod 4 * 16 + y div 16), b64digit (y mod 16 * 4),
          CHR ''=''])"
| "btoa (a # b # c # r) =
     (let x = of_char a :: nat; y = of_char b :: nat; z = of_char c :: nat
      in [b64digit (x div 4), b64digit (x mod 4 * 16 + y div 16),
          b64digit (y mod 16 * 4 + z div 64), b64digit (z mod 64)] @ btoa r)"

text \<open>The decimal digits of a natural number, as a template literal prints it.\<close>

fun showNat :: "nat \<Rightarrow> string" where
  "showNat n =
     (if n < 10 then [char_of (48 + n)] else showNat (n div 10) @ [char_of (48 + n mod 10)])"

text \<open>
  The readings one call of \<^verbatim>\<open>generateQRWithEntropy\<close> takes: \<^verbatim>\<open>new Date()\<close>,
  \<^verbatim>\<open>performance.now()\<close> as it prints, and the two random salts.
\<close>

record entropy =
  currentTime :: time
  perfNow :: string
  saltRandom :: string
  saltRotation :: string

text \<open>\<^verbatim>\<open>baseSessionData\<close> of the rotating generator, constant over the rotations.\<close>

record offlineSessionData = baseSessionData +
  generatedAt :: time
  offlineExpiresAt :: time

definition generateQRWithEntropy :: "entropy \<Rightarrow> offlineSessionData \<Rightarrow> nat \<Rightarrow> qrDataObj" where
  "generateQRWithEntropy en b k =
     \<lparr>sessionId = sessionId b, facultyId = facultyId b, school = school b, batch = batch b,
      subject = subject b, periods = periods b,
      timestamp = TsAt (currentTime en), qrExpiresAt = Some (offlineExpiresAt b),
      rotation = Some
        \<lparr>rotationIndex = k, rotationSalt = saltRotation en, randomSalt = saltRandom en,
         microseconds = perfNow en,
         checksum = take 12 (btoa (sessionId b @ ''_'' @ showNat k @ ''_'' @ perfNow en @ ''_''
                                     @ saltRandom en))\<rparr>\<rparr>"

text \<open>The component's state (\<open>genIsActive\<close> is its \<^verbatim>\<open>isActive\<close>, \<open>baseData\<close> its \<^verbatim>\<open>baseSessionData\<close>).\<close>

record generator =
  genIsActive :: bool
  timeLeft :: int
  qrRotationTimer :: int
  totalRotations :: nat
  baseData :: "offlineSessionData option"
  qrData :: "qrDataObj option"

text \<open>What \<^verbatim>\<open>generateQRCode\<close> of the rotating generator reads: form, user, clock, random parts.\<close>

record offlineInput =
  inSchool :: string
  inBatch :: string
  inSubject :: string
  inPeriods :: int
  inUid :: string
  inTimestamp :: time
  inRandomPart :: string
  inUniqueId :: string
  inExpiryClock :: time

definition offlineGenerateQRCode ::
  "offlineInput \<Rightarrow> entropy \<Rightarrow> generator \<Rightarrow> generator \<times> qrDataObj option" where
  "offlineGenerateQRCode i en g =
     (if inSchool i = [] \<or> inBatch i = [] \<or> inSubject i = [] \<or> inPeriods i = 0 then (g, None)
      else if inUid i = [] then (g, None)
      else
        let b = \<lparr>sessionId = ''session_'' @ showNat (nat (inTimestamp i)) @ ''_'' @ inRandomPart i
                             @ ''_'' @ inUniqueId i,
                 facultyId = inUid i, school = inSchool i, batch = inBatch i,
                 subject = inSubject i, periods = inPeriods i,
                 generatedAt = inTimestamp i, offlineExpiresAt = inExpiryClock i + 30000\<rparr>;
            q = generateQRWithEntropy en b 0
        in (g\<lparr>baseData := Some b, qrData := Some q, timeLeft := 30, qrRotationTimer := 5,
              totalRotations := 0, genIsActive := True\<rparr>, Some q))"

text \<open>
  One firing of the session timer (the one-second timeout and the effect that runs on the new
  \<^verbatim>\<open>timeLeft\<close>): the timeout is pending only while the session is active with time left; at 0
  the effect clears \<^verbatim>\<open>isActive\<close> and the rotation interval.
\<close>

definition sessionTimerTick :: "generator \<Rightarrow> generator" where
  "sessionTimerTick g =
     (if genIsActive g \<and> 0 < timeLeft g then
        let g1 = g\<lparr>timeLeft := timeLeft g - 1\<rparr>
        in if timeLeft g1 = 0 then g1\<lparr>genIsActive := False\<rparr> else g1
      else g)"

text \<open>
  One firing of the rotation interval, which runs only while \<^verbatim>\<open>isActive && baseSessionData\<close>,
  in a production build, where React runs each state updater once: the countdown goes down, and
  at 1 the rotation count goes up, a payload is generated for the new count, and the countdown
  restarts at 5. The result holds the payload generated, if any.
\<close>

definition rotationTimerTick :: "entropy \<Rightarrow> generator \<Rightarrow> generator \<times> qrDataObj option" where
  "rotationTimerTick en g =
     (case baseData g of
        None \<Rightarrow> (g, None)
      | Some b \<Rightarrow>
          if \<not> genIsActive g then (g, None)
          else if qrRotationTimer g \<le> 1 then
            let newRotationCount = totalRotations g + 1;
                q = generateQRWithEntropy en b newRotationCount
            in (g\<lparr>totalRotations := newRotationCount, qrData := Some q, qrRotationTimer := 5\<rparr>,
                Some q)
          else (g\<lparr>qrRotationTimer := qrRotationTimer g - 1\<rparr>, None))"


definition closeModal :: "generator \<Rightarrow> generator" where
  "closeModal g =
     g\<lparr>qrData := None, baseData := None, genIsActive := False, timeLeft := 30,
       qrRotationTimer := 5, totalRotations := 0\<rparr>"

text \<open>What can happen to a running session, and a run: the final state and the payloads generated.\<close>

datatype event = SessionTimer | RotationTimer entropy | CloseModal

fun runGenerator :: "event list \<Rightarrow> generator \<Rightarrow> generator \<times> qrDataObj list" where
  "runGenerator [] g = (g, [])"
| "runGenerator (SessionTimer # evs) g = runGenerator evs (sessionTimerTick g)"
| "runGenerator (CloseModal # evs) g = runGenerator evs (closeModal g)"
| "runGenerator (RotationTimer en # evs) g =
     (let (g1, out) = rotationTimerTick en g;
          (g2, outs) = runGenerator evs g1
      in (g2, (case out of None \<Rightarrow> outs | Some q \<Rightarrow> q # outs)))"

text \<open>The rotation index a payload carries (the display's \<^verbatim>\<open>qrData?.rotationIndex || 0\<close>).\<close>

definition rotationIndexOf :: "qrDataObj \<Rightarrow> nat" where
  "rotationIndexOf q = (case rotation q of None \<Rightarrow> 0 | Some r \<Rightarrow> rotationIndex r)"

declare showNat.simps [simp del]

section \<open>Notions used in the statements\<close>

text \<open>The stored count of a session agrees with its \<^verbatim>\<open>studentsPresent\<close> array.\<close>

definition aggregateConsistent :: "session \<Rightarrow> bool" where
  "aggregateConsistent s = (totalPresent s = Some (length (presentList s)))"

text \<open>The attendance documents of one student for one session.\<close>

definition recordsFor :: "string \<Rightarrow> string \<Rightarrow> db \<Rightarrow> attendanceDoc list" where
  "recordsFor i u d = filter (\<lambda>r. sessionId r = i \<and> studentId r = u) (attendance d)"

text \<open>
  \<open>s'\<close> is a later state of the document \<open>s\<close>: same \<^verbatim>\<open>expiresAt\<close> and \<^verbatim>\<open>createdAt\<close>, and
  \<^verbatim>\<open>isActive\<close> only if it was so in \<open>s\<close>.
\<close>

definition evolvesTo :: "session \<Rightarrow> session \<Rightarrow> bool" where
  "evolvesTo s s' =
     (expiresAt s' = expiresAt s \<and> createdAt s' = createdAt s \<and> (isActive s' \<longrightarrow> isActive s))"

text \<open>A decoded payload passes the structure test of \<^verbatim>\<open>onScanSuccess\<close>.\<close>

definition wellFormed :: "qrDataObj \<Rightarrow> bool" where
  "wellFormed q = (sessionId q \<noteq> [] \<and> facultyId q \<noteq> [] \<and> timestamp q \<noteq> TsMissing)"

definition accepted :: "scanOutcome \<Rightarrow> bool" where
  "accepted r = (case r of Scanned q \<Rightarrow> True | _ \<Rightarrow> False)"


text \<open>A payload with one of its rotation fields replaced.\<close>

definition withNonce :: "string \<Rightarrow> qrDataObj \<Rightarrow> qrDataObj" where
  "withNonce n q = q\<lparr>rotation := map_option (\<lambda>r. r\<lparr>randomSalt := n\<rparr>) (rotation q)\<rparr>"

definition withRotationIndex :: "nat \<Rightarrow> qrDataObj \<Rightarrow> qrDataObj" where
  "withRotationIndex k q = q\<lparr>rotation := map_option (\<lambda>r. r\<lparr>rotationIndex := k\<rparr>) (rotation q)\<rparr>"

definition withChecksum :: "string \<Rightarrow> qrDataObj \<Rightarrow> qrDataObj" where
  "withChecksum c q = q\<lparr>rotation := map_option (\<lambda>r. r\<lparr>checksum := c\<rparr>) (rotation q)\<rparr>"

text \<open>
  The checksum that the formula of \<^verbatim>\<open>generateQRWithEntropy\<close> gives for the fields a payload
  carries, and whether the payload's own checksum is that one.
\<close>

definition recomputedChecksum :: "qrDataObj \<Rightarrow> string option" where
  "recomputedChecksum q =
     map_option (\<lambda>r. take 12 (btoa (sessionId q @ ''_'' @ showNat (rotationIndex r) @ ''_''
                                       @ microseconds r @ ''_'' @ randomSalt r))) (rotation q)"

definition checksumMatches :: "qrDataObj \<Rightarrow> bool" where
  "checksumMatches q = (map_option checksum (rotation q) = recomputedChecksum q)"

section \<open>Concrete values\<close>

definition exEnv :: "time \<Rightarrow> string \<Rightarrow> env" where
  "exEnv t i =
     \<lparr>now = t, newId = i, addDocFails = False, getDocFails = False, updateDocFails = False,
      getDocsFails = False, uploadFails = False\<rparr>"

definition emptyDb :: db where
  "emptyDb = \<lparr>sessions = [], attendance = []\<rparr>"

text \<open>A database with one session \<open>''s1''\<close> of faculty \<open>''f1''\<close>, created at 1000 to expire at 31000.\<close>

definition exDb :: db where
  "exDb = snd (createAttendanceSession (exEnv 1000 ''s1'')
                 \<lparr>sessionFacultyId = ''f1'', expiresAt = Some 31000\<rparr> emptyDb)"

definition exAttendance :: "string \<Rightarrow> string \<Rightarrow> attendanceData" where
  "exAttendance i u =
     \<lparr>sessionId = i, facultyId = ''f1'', school = ''sot'', batch = ''sot24b1'', subject = ''java'',
      periods = 1, studentId = u, studentName = ''Student'', photoUrl = ''photo.jpg''\<rparr>"

text \<open>The same database after student \<open>''u1''\<close> has marked attendance for \<open>''s1''\<close> once.\<close>

definition exDbMarked :: db where
  "exDbMarked = snd (markAttendance (exEnv 2000 ''r1'') (exAttendance ''s1'' ''u1'') exDb)"

text \<open>Session \<open>''s1''\<close> deactivated at 10000, and a series of later operations.\<close>

definition exDbDeactivated :: db where
  "exDbDeactivated = snd (deactivateSession (exEnv 10000 ''x'') ''s1'' exDb)"

definition exOperations :: "operation list" where
  "exOperations =
     [CreateSession (exEnv 11000 ''s2'') \<lparr>sessionFacultyId = ''f1'', expiresAt = None\<rparr>,
      MarkAttendance (exEnv 12000 ''r1'') (exAttendance ''s1'' ''u1''),
      SaveQRCode (exEnv 13000 ''x'') ''qr.png'' ''s1'',
      GetActiveSessions (exEnv 50000 ''x'') ''f1'',
      DeactivateSession (exEnv 51000 ''x'') ''s1'']"




definition exForm :: baseSessionData where
  "exForm =
     \<lparr>sessionId = [], facultyId = ''f1'', school = ''sot'', batch = ''sot24b1'', subject = ''java'',
      periods = 1\<rparr>"

definition exEntropy :: "time \<Rightarrow> entropy" where
  "exEntropy t =
     \<lparr>currentTime = t, perfNow = ''1234.5'', saltRandom = ''k3j9x2m1q8'', saltRotation = ''z7y6''\<rparr>"

definition exInput :: offlineInput where
  "exInput =
     \<lparr>inSchool = ''sot'', inBatch = ''sot24b1'', inSubject = ''java'', inPeriods = 1, inUid = ''f1'',
      inTimestamp = 1000, inRandomPart = ''abcdefghijkl'', inUniqueId = ''mnopqrst'',
      inExpiryClock = 1000\<rparr>"

definition idleGenerator :: generator where
  "idleGenerator =
     \<lparr>genIsActive = False, timeLeft = 30, qrRotationTimer = 5, totalRotations = 0,
      baseData = None, qrData = None\<rparr>"

text \<open>
  A session of the rotating generator started at time 1000, and its first \<open>n\<close> seconds: in each
  second the rotation interval fires, then the session timer.
\<close>

definition exStart :: "generator \<times> qrDataObj option" where
  "exStart = offlineGenerateQRCode exInput (exEntropy 1000) idleGenerator"

definition exTicks :: "nat \<Rightarrow> event list" where
  "exTicks n =
     concat (map (\<lambda>k. [RotationTimer (exEntropy (1000 + 1000 * int k)), SessionTimer]) [1..<Suc n])"

text \<open>The first payload of that session.\<close>

definition exIssued :: qrDataObj where
  "exIssued =
     generateQRWithEntropy (exEntropy 1000)
       \<lparr>sessionId = ''session_1000_abcdefghijkl_mnopqrst'', facultyId = ''f1'', school = ''sot'',
        batch = ''sot24b1'', subject = ''java'', periods = 1, generatedAt = 1000,
        offlineExpiresAt = 31000\<rparr> 0"

text \<open>
  The payload of the fifth rotation of that session, generated at 26000, and the first payload
  with another session identifier put in.
\<close>

definition exFinal :: qrDataObj where
  "exFinal =
     generateQRWithEntropy (exEntropy 26000)
       \<lparr>sessionId = ''session_1000_abcdefghijkl_mnopqrst'', facultyId = ''f1'', school = ''sot'',
        batch = ''sot24b1'', subject = ''java'', periods = 1, generatedAt = 1000,
        offlineExpiresAt = 31000\<rparr> 5"

definition exForged :: qrDataObj where
  "exForged = exIssued\<lparr>sessionId := ''other_session''\<rparr>"

text \<open>The payload of a session \<open>i\<close> issued at time \<open>t\<close> by the online generator.\<close>

definition exPayload :: "string \<Rightarrow> time \<Rightarrow> qrDataObj" where
  "exPayload i t =
     \<lparr>sessionId = i, facultyId = ''f1'', school = ''sot'', batch = ''sot24b1'', subject = ''java'',
      periods = 1, timestamp = TsAt t, qrExpiresAt = Some (t + 30000), rotation = None\<rparr>"

section \<open>The store primitives and one call of markAttendance\<close>

lemma getDoc_updateDoc:
  "updateDoc i f st = Some st' \<Longrightarrow>
     getDoc st' j = (if j = i then map_option f (getDoc st i) else getDoc st j)"
  by (auto simp: updateDoc_def getDoc_def update_conv' split: option.splits)

lemma updateDoc_eq_None: "(updateDoc i f st = None) = (getDoc st i = None)"
  by (simp add: updateDoc_def getDoc_def split: option.splits)

lemma list_ex_presentIds:
  "list_ex (\<lambda>x. peStudentId x = u) (presentList s) = (u \<in> set (presentIds s))"
  by (auto simp: presentIds_def list_ex_iff)

lemma markAttendance_Failure_sessions:
  "fst (markAttendance e a d) = Failure \<Longrightarrow> sessions (snd (markAttendance e a d)) = sessions d"
  by (auto simp: markAttendance_def Let_def split: option.splits if_splits)

lemma markAttendance_getDoc:
  "getDoc (sessions (snd (markAttendance e a d))) j =
     (if fst (markAttendance e a d) = Success () \<and> sessionId a \<noteq> [] \<and> j = sessionId a then
        (case getDoc (sessions d) j of
           None \<Rightarrow> None
         | Some s \<Rightarrow>
             if studentId a \<in> set (presentIds s) then Some s
             else Some (s\<lparr>studentsPresent := Some (presentList s @ [newPresentEntry e a]),
                          totalPresent := Some (Suc (length (presentList s))),
                          lastUpdated := Some (now e)\<rparr>))
      else getDoc (sessions d) j)"
  by (auto simp: markAttendance_def Let_def list_ex_presentIds getDoc_updateDoc updateDoc_eq_None
      split: option.splits)


lemma presentIds_update [simp]:
  "presentIds (s\<lparr>studentsPresent := Some xs, totalPresent := n, lastUpdated := t\<rparr>) = map peStudentId xs"
  by (simp add: presentIds_def presentList_def)

lemma presentList_update [simp]:
  "presentList (s\<lparr>studentsPresent := Some xs, totalPresent := n, lastUpdated := t\<rparr>) = xs"
  by (simp add: presentList_def)


lemma markAttendance_result: "fst (markAttendance e a d) \<noteq> Success () \<Longrightarrow> fst (markAttendance e a d) = Failure"
  by (cases "fst (markAttendance e a d)") auto

lemma mark_step:
  assumes "getDoc (sessions d) i = Some s" and "sessionId a = i" and "i \<noteq> []"
  shows "\<exists>s1. getDoc (sessions (snd (markAttendance e a d))) i = Some s1 \<and>
           set (presentIds s1) =
             (if fst (markAttendance e a d) = Success () then insert (studentId a) (set (presentIds s))
              else set (presentIds s)) \<and>
           (fst (markAttendance e a d) = Failure \<longrightarrow> s1 = s) \<and>
           (distinct (presentIds s) \<longrightarrow> distinct (presentIds s1)) \<and>
           (aggregateConsistent s \<longrightarrow> aggregateConsistent s1) \<and>
           (presentIds s1 \<noteq> presentIds s \<longrightarrow> aggregateConsistent s1)"
proof (cases "fst (markAttendance e a d) = Success ()")
  case True
  show ?thesis
  proof (cases "studentId a \<in> set (presentIds s)")
    case present: True
    with True assms have "getDoc (sessions (snd (markAttendance e a d))) i = Some s"
      by (simp add: markAttendance_getDoc)
    with True present show ?thesis by auto
  next
    case absent: False
    let ?s1 = "s\<lparr>studentsPresent := Some (presentList s @ [newPresentEntry e a]),
                  totalPresent := Some (Suc (length (presentList s))),
                  lastUpdated := Some (now e)\<rparr>"
    from True absent assms have "getDoc (sessions (snd (markAttendance e a d))) i = Some ?s1"
      by (simp add: markAttendance_getDoc)
    moreover have "presentIds ?s1 = presentIds s @ [studentId a]"
      by (simp add: presentIds_def newPresentEntry_def)
    moreover have "aggregateConsistent ?s1"
      by (simp add: aggregateConsistent_def)
    ultimately show ?thesis using True absent by auto
  qed
next
  case False
  then have f: "fst (markAttendance e a d) = Failure" by (rule markAttendance_result)
  with assms have "getDoc (sessions (snd (markAttendance e a d))) i = Some s"
    by (simp add: markAttendance_Failure_sessions)
  with f show ?thesis by auto
qed



lemma markAttendance_attendance:
  "\<not> addDocFails e \<Longrightarrow>
     attendance (snd (markAttendance e a d)) = attendance d @ [newAttendanceDoc e a]"
  by (simp add: markAttendance_def Let_def split: option.splits)

lemma markAttendance_success:
  "noFaults e \<Longrightarrow> fst (markAttendance e a d) = Success ()"
  by (simp add: noFaults_def markAttendance_def Let_def getDoc_def updateDoc_def split: option.splits)

section \<open>Aggregate consistency\<close>

lemma markAttendance_steps:
  "markAttendance e a d =
     (case markAdd e a d of
        (Failure, d1) \<Rightarrow> (Failure, d1)
      | (Success u, d1) \<Rightarrow>
          if sessionId a = [] then (Success (), d1)
          else (case markRead e a d1 of
                  Failure \<Rightarrow> (Failure, d1)
                | Success snapshot \<Rightarrow> markWrite e a snapshot d1))"
  by (simp add: markAttendance_def markAdd_def markRead_def markWrite_def Let_def
      split: option.splits)







lemma exDb_s1:
  "getDoc (sessions exDb) ''s1'' =
     Some \<lparr>sessionFacultyId = ''f1'', expiresAt = Some 31000, createdAt = 1000, isActive = True,
           qrCodeGenerated = True, studentsPresent = Some [], totalStudents = 0,
           totalPresent = None, lastUpdated = None, deactivatedAt = None, qrCodeUrl = None\<rparr>"
  by (simp add: exDb_def emptyDb_def exEnv_def createAttendanceSession_def getDoc_def)



section \<open>Repeated and unmatched recordings\<close>

lemma markAttendance_noop:
  "sessionId a = [] \<or> getDoc (sessions d) (sessionId a) = None \<or>
     (\<exists>s. getDoc (sessions d) (sessionId a) = Some s \<and> studentId a \<in> set (presentIds s)) \<Longrightarrow>
   sessions (snd (markAttendance e a d)) = sessions d"
  by (auto simp: markAttendance_def Let_def list_ex_presentIds split: option.splits)

lemma markAttendance_distinct:
  "getDoc (sessions d) j = Some s \<Longrightarrow> distinct (presentIds s) \<Longrightarrow>
     \<exists>s'. getDoc (sessions (snd (markAttendance e a d))) j = Some s' \<and> distinct (presentIds s')"
  by (auto simp: markAttendance_getDoc newPresentEntry_def presentIds_def)

lemma markAttendance_recorded:
  assumes "noFaults e" and "getDoc (sessions (snd (markAttendance e a d))) (sessionId a) = Some s1"
    and "sessionId a \<noteq> []"
  shows "studentId a \<in> set (presentIds s1)"
proof -
  from assms(1) have ok: "fst (markAttendance e a d) = Success ()" by (rule markAttendance_success)
  from assms(2) obtain s where s: "getDoc (sessions d) (sessionId a) = Some s"
    using ok assms(3) by (auto simp: markAttendance_getDoc split: option.splits)
  from mark_step [OF s refl assms(3), of e] ok assms(2) show ?thesis by auto
qed

text \<open>
  Claim C10. \<^verbatim>\<open>markAttendance\<close> adds the attendance document before it looks at the session:
  whenever \<^verbatim>\<open>addDoc\<close> goes through, the collection ends with the new document, also when
  the later session read throws. With no Firestore failure the call returns success when no
  session has the given identifier, and when the student already is in \<^verbatim>\<open>studentsPresent\<close>,
  in both cases leaving the sessions as they were; and it returns the same success value in
  every case, so a first recording and a repeat look alike to the caller.
\<close>

theorem markAttendance_writes_first:
  "(\<not> addDocFails e \<longrightarrow>
      attendance (snd (markAttendance e a d)) = attendance d @ [newAttendanceDoc e a]) \<and>
   (noFaults e \<and> getDoc (sessions d) (sessionId a) = None \<longrightarrow>
      fst (markAttendance e a d) = Success () \<and> sessions (snd (markAttendance e a d)) = sessions d) \<and>
   (noFaults e \<and> (\<exists>s. getDoc (sessions d) (sessionId a) = Some s \<and> studentId a \<in> set (presentIds s)) \<longrightarrow>
      fst (markAttendance e a d) = Success () \<and> sessions (snd (markAttendance e a d)) = sessions d) \<and>
   (noFaults e \<longrightarrow> fst (markAttendance e a d) = Success ())"
  using markAttendance_attendance [of e a d] markAttendance_success [of e a d]
    markAttendance_noop [of a d e]
  by blast

lemma exDbMarked_eval:
  "exDbMarked =
     \<lparr>sessions = [(''s1'', \<lparr>sessionFacultyId = ''f1'', expiresAt = Some 31000, createdAt = 1000,
         isActive = True, qrCodeGenerated = True,
         studentsPresent = Some [\<lparr>peStudentId = ''u1'', peStudentName = ''Student'', peMarkedAt = 2000,
                                   pePhotoUrl = ''photo.jpg''\<rparr>],
         totalStudents = 0, totalPresent = Some 1, lastUpdated = Some 2000, deactivatedAt = None,
         qrCodeUrl = None\<rparr>)],
      attendance = [newAttendanceDoc (exEnv 2000 ''r1'') (exAttendance ''s1'' ''u1'')]\<rparr>"
  by (simp add: exDbMarked_def exDb_def emptyDb_def exEnv_def exAttendance_def createAttendanceSession_def
      markAttendance_def getDoc_def updateDoc_def presentList_def newPresentEntry_def Let_def newAttendanceDoc_def)

theorem markAttendance_writes_first_witness:
  "noFaults (exEnv 2000 ''r1'') \<and> getDoc (sessions exDb) ''ghost'' = None \<and>
   fst (markAttendance (exEnv 2000 ''r1'') (exAttendance ''ghost'' ''u1'') exDb) = Success () \<and>
   attendance (snd (markAttendance (exEnv 2000 ''r1'') (exAttendance ''ghost'' ''u1'') exDb)) =
     [newAttendanceDoc (exEnv 2000 ''r1'') (exAttendance ''ghost'' ''u1'')] \<and>
   noFaults (exEnv 3000 ''r2'') \<and>
   map_option presentIds (getDoc (sessions exDbMarked) ''s1'') = Some [''u1''] \<and>
   fst (markAttendance (exEnv 3000 ''r2'') (exAttendance ''s1'' ''u1'') exDbMarked) = Success () \<and>
   sessions (snd (markAttendance (exEnv 3000 ''r2'') (exAttendance ''s1'' ''u1'') exDbMarked)) =
     sessions exDbMarked"
proof -
  have n1: "noFaults (exEnv 2000 ''r1'')" and n2: "noFaults (exEnv 3000 ''r2'')"
    by (simp_all add: noFaults_def exEnv_def)
  have g: "getDoc (sessions exDb) (sessionId (exAttendance ''ghost'' ''u1'')) = None"
    by (simp add: exDb_def emptyDb_def exEnv_def exAttendance_def createAttendanceSession_def getDoc_def)
  have a0: "attendance exDb = []"
    by (simp add: exDb_def emptyDb_def exEnv_def createAttendanceSession_def)
  have p: "\<exists>s. getDoc (sessions exDbMarked) (sessionId (exAttendance ''s1'' ''u1'')) = Some s \<and>
             studentId (exAttendance ''s1'' ''u1'') \<in> set (presentIds s)"
    by (simp add: exDbMarked_eval exAttendance_def getDoc_def presentIds_def presentList_def)
  have q: "map_option presentIds (getDoc (sessions exDbMarked) ''s1'') = Some [''u1'']"
    by (simp add: exDbMarked_eval getDoc_def presentIds_def presentList_def)
  from markAttendance_writes_first [of "exEnv 2000 ''r1''" "exAttendance ''ghost'' ''u1''" exDb]
    markAttendance_writes_first [of "exEnv 3000 ''r2''" "exAttendance ''s1'' ''u1''" exDbMarked]
    n1 n2 g a0 p q
  show ?thesis by (simp add: noFaults_def exAttendance_def)
qed

text \<open>
  Claim C1 says that a second \<^verbatim>\<open>markAttendance\<close> for the same session and student writes
  no further attendance document and returns an already-recorded outcome. The service has no
  such check and no such outcome: after two calls of student \<open>''u1''\<close> for session \<open>''s1''\<close>
  the collection holds two documents of that pair, and both calls returned success.
\<close>

theorem duplicate_record_counterexample:
  "fst (markAttendance (exEnv 2000 ''r1'') (exAttendance ''s1'' ''u1'') exDb) = Success () \<and>
   length (recordsFor ''s1'' ''u1'' exDbMarked) = 1 \<and>
   fst (markAttendance (exEnv 3000 ''r2'') (exAttendance ''s1'' ''u1'') exDbMarked) = Success () \<and>
   length (recordsFor ''s1'' ''u1''
             (snd (markAttendance (exEnv 3000 ''r2'') (exAttendance ''s1'' ''u1'') exDbMarked))) = 2"
  by (simp add: exDbMarked_eval recordsFor_def)
    (simp add: exDb_def emptyDb_def exEnv_def exAttendance_def createAttendanceSession_def
      markAttendance_def getDoc_def updateDoc_def presentList_def newPresentEntry_def Let_def
      newAttendanceDoc_def)

text \<open>
  Claim C1 as amended. Of two calls without Firestore failures for the same session and
  student, the second leaves the sessions, and so \<^verbatim>\<open>studentsPresent\<close> and \<^verbatim>\<open>totalPresent\<close>,
  as the first left them, while it appends a second attendance document and returns success
  as the first did. A session whose \<^verbatim>\<open>studentsPresent\<close> lists no student twice still does so
  afterwards: it is in this array, not in the attendance collection, that a student appears
  at most once per session.
\<close>

theorem repeat_recording:
  assumes "noFaults e1" and "noFaults e2"
    and "sessionId a2 = sessionId a1" and "studentId a2 = studentId a1"
  shows "sessions (snd (markAttendance e2 a2 (snd (markAttendance e1 a1 d)))) =
           sessions (snd (markAttendance e1 a1 d)) \<and>
         attendance (snd (markAttendance e2 a2 (snd (markAttendance e1 a1 d)))) =
           attendance d @ [newAttendanceDoc e1 a1, newAttendanceDoc e2 a2] \<and>
         fst (markAttendance e2 a2 (snd (markAttendance e1 a1 d))) = Success () \<and>
         fst (markAttendance e1 a1 d) = Success () \<and>
         (\<forall>j s. getDoc (sessions d) j = Some s \<and> distinct (presentIds s) \<longrightarrow>
            (\<exists>s'. getDoc (sessions (snd (markAttendance e2 a2 (snd (markAttendance e1 a1 d))))) j = Some s' \<and>
                  distinct (presentIds s')))"
proof -
  let ?d1 = "snd (markAttendance e1 a1 d)"
  have "sessionId a2 = [] \<or> getDoc (sessions ?d1) (sessionId a2) = None \<or>
     (\<exists>s. getDoc (sessions ?d1) (sessionId a2) = Some s \<and> studentId a2 \<in> set (presentIds s))"
    using markAttendance_recorded [OF assms(1), of a1 d] assms(3,4)
    by (cases "getDoc (sessions ?d1) (sessionId a1)") auto
  then have same: "sessions (snd (markAttendance e2 a2 ?d1)) = sessions ?d1"
    by (rule markAttendance_noop)
  have att: "attendance (snd (markAttendance e2 a2 ?d1)) =
           attendance d @ [newAttendanceDoc e1 a1, newAttendanceDoc e2 a2]"
    using assms(1,2) by (simp add: noFaults_def markAttendance_attendance)
  have dist: "\<forall>j s. getDoc (sessions d) j = Some s \<and> distinct (presentIds s) \<longrightarrow>
            (\<exists>s'. getDoc (sessions (snd (markAttendance e2 a2 ?d1))) j = Some s' \<and>
                  distinct (presentIds s'))"
    using same markAttendance_distinct [of d _ _ e1 a1] by simp
  show ?thesis
    using same att dist markAttendance_success [OF assms(1)] markAttendance_success [OF assms(2)]
    by simp
qed

theorem repeat_recording_witness:
  "noFaults (exEnv 2000 ''r1'') \<and> noFaults (exEnv 3000 ''r2'') \<and>
   sessions (snd (markAttendance (exEnv 3000 ''r2'') (exAttendance ''s1'' ''u1'') exDbMarked)) =
     sessions exDbMarked \<and>
   attendance (snd (markAttendance (exEnv 3000 ''r2'') (exAttendance ''s1'' ''u1'') exDbMarked)) =
     [newAttendanceDoc (exEnv 2000 ''r1'') (exAttendance ''s1'' ''u1''),
      newAttendanceDoc (exEnv 3000 ''r2'') (exAttendance ''s1'' ''u1'')]"
proof -
  have n1: "noFaults (exEnv 2000 ''r1'')" and n2: "noFaults (exEnv 3000 ''r2'')"
    by (simp_all add: noFaults_def exEnv_def)
  have a0: "attendance exDb = []"
    by (simp add: exDb_def emptyDb_def exEnv_def createAttendanceSession_def)
  from repeat_recording [OF n1 n2 refl refl, of "exAttendance ''s1'' ''u1''" exDb] n1 n2 a0
  show ?thesis by (simp add: exDbMarked_def)
qed

section \<open>Documents under the operations of the service\<close>

lemma evolvesTo_refl: "evolvesTo s s"
  by (simp add: evolvesTo_def)

lemma evolvesTo_trans: "evolvesTo s s1 \<Longrightarrow> evolvesTo s1 s2 \<Longrightarrow> evolvesTo s s2"
  by (simp add: evolvesTo_def)

lemma evolvesTo_expirationTime: "evolvesTo s s' \<Longrightarrow> expirationTime s' = expirationTime s"
  by (simp add: evolvesTo_def expirationTime_def split: option.splits)

lemma updateDoc_evolves:
  assumes "\<And>s. evolvesTo s (f s)" and "getDoc st j = Some s"
  shows "\<exists>s'. getDoc (case updateDoc i f st of None \<Rightarrow> st | Some st' \<Rightarrow> st') j = Some s' \<and> evolvesTo s s'"
proof (cases "updateDoc i f st")
  case None
  with assms(2) show ?thesis by (simp add: evolvesTo_refl)
next
  case (Some st')
  from getDoc_updateDoc [OF Some, of j] assms Some show ?thesis
    by (auto simp: evolvesTo_refl)
qed

lemma createAttendanceSession_getDoc:
  "getDoc (sessions (snd (createAttendanceSession e sd d))) j =
     (if \<not> addDocFails e \<and> j = newId e then
        Some \<lparr>sessionFacultyId = sessionFacultyId sd, expiresAt = expiresAt sd,
              createdAt = now e, isActive = True, qrCodeGenerated = True,
              studentsPresent = Some [], totalStudents = 0, totalPresent = None,
              lastUpdated = None, deactivatedAt = None, qrCodeUrl = None\<rparr>
      else getDoc (sessions d) j)"
  by (simp add: createAttendanceSession_def getDoc_def update_conv')

lemma create_evolves:
  "getDoc (sessions d) (newId e) = None \<Longrightarrow> getDoc (sessions d) j = Some s \<Longrightarrow>
     \<exists>s'. getDoc (sessions (snd (createAttendanceSession e sd d))) j = Some s' \<and> evolvesTo s s'"
  by (auto simp: createAttendanceSession_getDoc evolvesTo_refl)

lemma mark_evolves:
  "getDoc (sessions d) j = Some s \<Longrightarrow>
     \<exists>s'. getDoc (sessions (snd (markAttendance e a d))) j = Some s' \<and> evolvesTo s s'"
  by (auto simp: markAttendance_getDoc evolvesTo_def)

lemma save_evolves:
  assumes "getDoc (sessions d) j = Some s"
  shows "\<exists>s'. getDoc (sessions (snd (saveQRCodeToStorage e url i d))) j = Some s' \<and> evolvesTo s s'"
  using updateDoc_evolves [of "\<lambda>s. s\<lparr>qrCodeUrl := Some url, qrCodeGenerated := True\<rparr>" "sessions d" j s i] assms
  by (auto simp: saveQRCodeToStorage_def evolvesTo_def split: option.splits)

lemma deactivate_evolves:
  assumes "getDoc (sessions d) j = Some s"
  shows "\<exists>s'. getDoc (sessions (snd (deactivateSession e i d))) j = Some s' \<and> evolvesTo s s'"
  using updateDoc_evolves [of "\<lambda>s. s\<lparr>isActive := False, deactivatedAt := Some (now e)\<rparr>" "sessions d" j s i] assms
  by (auto simp: deactivateSession_def evolvesTo_def split: option.splits)

lemma expireDoc_evolves:
  assumes "getDoc st j = Some s"
  shows "\<exists>s'. getDoc (expireDoc e i st) j = Some s' \<and> evolvesTo s s'"
  using updateDoc_evolves [of "\<lambda>s. s\<lparr>isActive := False\<rparr>" st j s i] assms
  by (auto simp: expireDoc_def evolvesTo_def)

lemma fold_expireDoc_evolves:
  "getDoc st j = Some s \<Longrightarrow>
     \<exists>s'. getDoc (fold (\<lambda>(i, s). expireDoc e i) dead st) j = Some s' \<and> evolvesTo s s'"
proof (induction dead arbitrary: st s)
  case Nil
  then show ?case by (simp add: evolvesTo_refl)
next
  case (Cons x dead)
  obtain i t where x: "x = (i, t)" by (cases x)
  from expireDoc_evolves [OF Cons.prems, of e i]
  obtain s1 where s1: "getDoc (expireDoc e i st) j = Some s1" and e1: "evolvesTo s s1" by blast
  from Cons.IH [OF s1] obtain s' where
    "getDoc (fold (\<lambda>(i, s). expireDoc e i) dead (expireDoc e i st)) j = Some s'" and "evolvesTo s1 s'"
    by blast
  with e1 x show ?case by (auto intro: evolvesTo_trans)
qed

lemma getActive_evolves:
  "getDoc (sessions d) j = Some s \<Longrightarrow>
     \<exists>s'. getDoc (sessions (snd (getActiveSessions e fid d))) j = Some s' \<and> evolvesTo s s'"
  by (simp add: getActiveSessions_def Let_def evolvesTo_refl fold_expireDoc_evolves)

lemma applyOperation_evolves:
  assumes "freshIds [x] d" and "getDoc (sessions d) j = Some s"
  shows "\<exists>s'. getDoc (sessions (applyOperation x d)) j = Some s' \<and> evolvesTo s s'"
  using assms
  by (cases x)
    (simp_all add: create_evolves mark_evolves save_evolves getActive_evolves deactivate_evolves)

lemma runOperations_evolves:
  "freshIds xs d \<Longrightarrow> getDoc (sessions d) j = Some s \<Longrightarrow>
     \<exists>s'. getDoc (sessions (runOperations xs d)) j = Some s' \<and> evolvesTo s s'"
proof (induction xs arbitrary: d s)
  case Nil
  then show ?case by (simp add: evolvesTo_refl)
next
  case (Cons x xs)
  from Cons.prems have "freshIds [x] d" and rest: "freshIds xs (applyOperation x d)" by simp_all
  from applyOperation_evolves [OF this(1) Cons.prems(2)]
  obtain s1 where s1: "getDoc (sessions (applyOperation x d)) j = Some s1" and e1: "evolvesTo s s1"
    by blast
  from Cons.IH [OF rest s1] e1 show ?case by (auto intro: evolvesTo_trans)
qed

section \<open>Session lifecycle\<close>

text \<open>
  Claim C9. Under any sequence of operations of the service in which every \<^verbatim>\<open>addDoc\<close>
  generates an unused identifier, a session document stays in the store, and if its
  \<^verbatim>\<open>isActive\<close> flag is false it stays false; and a session that does not count as active at
  one time, its flag cleared or its expiration time reached, does not count as active at any
  later time either.
\<close>

theorem inactive_is_absorbing:
  assumes "freshIds xs d" and "getDoc (sessions d) i = Some s"
  shows "\<exists>s'. getDoc (sessions (runOperations xs d)) i = Some s' \<and>
           (\<not> isActive s \<longrightarrow> \<not> isActive s') \<and>
           (\<forall>t t'. \<not> sessionActive t s \<and> t \<le> t' \<longrightarrow> \<not> sessionActive t' s')"
proof -
  from runOperations_evolves [OF assms]
  obtain s' where s': "getDoc (sessions (runOperations xs d)) i = Some s'" and ev: "evolvesTo s s'"
    by blast
  from ev have "expirationTime s' = expirationTime s" by (rule evolvesTo_expirationTime)
  with ev have "\<forall>t t'. \<not> sessionActive t s \<and> t \<le> t' \<longrightarrow> \<not> sessionActive t' s'"
    by (auto simp: sessionActive_def evolvesTo_def)
  with s' ev show ?thesis by (auto simp: evolvesTo_def)
qed

lemma exDbDeactivated_eval:
  "exDbDeactivated =
     \<lparr>sessions = [(''s1'', \<lparr>sessionFacultyId = ''f1'', expiresAt = Some 31000, createdAt = 1000,
         isActive = False, qrCodeGenerated = True, studentsPresent = Some [],
         totalStudents = 0, totalPresent = None, lastUpdated = None, deactivatedAt = Some 10000,
         qrCodeUrl = None\<rparr>)],
      attendance = []\<rparr>"
  by (simp add: exDbDeactivated_def exDb_def emptyDb_def exEnv_def createAttendanceSession_def
      deactivateSession_def updateDoc_def)

lemma exOperations_fresh: "freshIds exOperations exDbDeactivated"
  by (simp add: exOperations_def exDbDeactivated_eval getDoc_def exEnv_def)

theorem inactive_is_absorbing_witness:
  "freshIds exOperations exDbDeactivated \<and>
   map_option isActive (getDoc (sessions exDbDeactivated) ''s1'') = Some False \<and>
   map_option isActive (getDoc (sessions (runOperations exOperations exDbDeactivated)) ''s1'') = Some False \<and>
   map_option (sessionActive 60000) (getDoc (sessions (runOperations exOperations exDbDeactivated)) ''s1'')
     = Some False"
proof -
  let ?s = "\<lparr>sessionFacultyId = ''f1'', expiresAt = Some 31000, createdAt = 1000,
         isActive = False, qrCodeGenerated = True, studentsPresent = Some [],
         totalStudents = 0, totalPresent = None, lastUpdated = None, deactivatedAt = Some 10000,
         qrCodeUrl = None\<rparr>"
  have g: "getDoc (sessions exDbDeactivated) ''s1'' = Some ?s"
    by (simp add: exDbDeactivated_eval getDoc_def)
  have n: "\<not> sessionActive 10000 ?s" by (simp add: sessionActive_def)
  from inactive_is_absorbing [OF exOperations_fresh g]
  obtain s' where s': "getDoc (sessions (runOperations exOperations exDbDeactivated)) ''s1'' = Some s'"
    and a: "\<not> isActive ?s \<longrightarrow> \<not> isActive s'"
    and b: "\<forall>t t'. \<not> sessionActive t ?s \<and> t \<le> t' \<longrightarrow> \<not> sessionActive t' s'"
    by blast
  from a have "\<not> isActive s'" by simp
  moreover from b [rule_format, of 10000 60000] n have "\<not> sessionActive 60000 s'" by simp
  ultimately show ?thesis using exOperations_fresh g s' by simp
qed

text \<open>
  Claim C8 says that a session is created with a zero present count. The document that
  \<^verbatim>\<open>createAttendanceSession\<close> writes has \<^verbatim>\<open>studentsPresent: []\<close> and \<^verbatim>\<open>totalStudents: 0\<close>, and
  no \<^verbatim>\<open>totalPresent\<close> field: the stored present count of the new session \<open>''s1''\<close> is absent,
  not 0.
\<close>

theorem created_present_count_counterexample:
  "map_option totalPresent (getDoc (sessions exDb) ''s1'') = Some None \<and>
   map_option totalStudents (getDoc (sessions exDb) ''s1'') = Some 0"
  by (simp add: exDb_s1)

text \<open>
  Claim C8 as amended. The document of a successfully created session has \<^verbatim>\<open>isActive\<close> true,
  an empty \<^verbatim>\<open>studentsPresent\<close> array, \<^verbatim>\<open>totalStudents\<close> 0 and no \<^verbatim>\<open>totalPresent\<close>; its
  expiration time is the \<^verbatim>\<open>expiresAt\<close> of the caller, else its creation time plus 30 seconds,
  and no later sequence of operations (with unused identifiers for the documents they add)
  changes it. For a session made by \<^verbatim>\<open>generateQRCode\<close>
  the expiration time is that function's clock reading \<open>t\<close> plus 30 seconds.
\<close>

theorem session_creation:
  "(createAttendanceSession e sd d = (Success i, d') \<longrightarrow>
      (\<exists>s. getDoc (sessions d') i = Some s \<and> isActive s \<and> studentsPresent s = Some [] \<and>
           totalStudents s = 0 \<and> totalPresent s = None \<and> createdAt s = now e \<and>
           expirationTime s = (case expiresAt sd of Some x \<Rightarrow> x | None \<Rightarrow> now e + 30000) \<and>
           (\<forall>xs. freshIds xs d' \<longrightarrow>
              (\<exists>s'. getDoc (sessions (runOperations xs d')) i = Some s' \<and>
                    expirationTime s' = expirationTime s)))) \<and>
   (generateQRCode t e t' e' url form d = (Some q, d'') \<longrightarrow>
      (\<exists>s. getDoc (sessions d'') (sessionId q) = Some s \<and> isActive s \<and>
           studentsPresent s = Some [] \<and> createdAt s = now e \<and> expirationTime s = t + 30000))"
proof (intro conjI impI)
  assume c: "createAttendanceSession e sd d = (Success i, d')"
  let ?s = "\<lparr>sessionFacultyId = sessionFacultyId sd, expiresAt = expiresAt sd,
              createdAt = now e, isActive = True, qrCodeGenerated = True,
              studentsPresent = Some [], totalStudents = 0, totalPresent = None,
              lastUpdated = None, deactivatedAt = None, qrCodeUrl = None\<rparr>"
  from c have ok: "\<not> addDocFails e" and i: "i = newId e"
    by (auto simp: createAttendanceSession_def split: if_splits)
  from c have d': "d' = snd (createAttendanceSession e sd d)" by simp
  have g: "getDoc (sessions d') i = Some ?s"
    using ok i by (simp add: d' createAttendanceSession_getDoc)
  have "\<forall>xs. freshIds xs d' \<longrightarrow>
              (\<exists>s'. getDoc (sessions (runOperations xs d')) i = Some s' \<and>
                    expirationTime s' = expirationTime ?s)"
    using runOperations_evolves [OF _ g] evolvesTo_expirationTime by blast
  moreover have "expirationTime ?s = (case expiresAt sd of Some x \<Rightarrow> x | None \<Rightarrow> now e + 30000)"
    by (simp add: expirationTime_def split: option.splits)
  ultimately show "\<exists>s. getDoc (sessions d') i = Some s \<and> isActive s \<and> studentsPresent s = Some [] \<and>
           totalStudents s = 0 \<and> totalPresent s = None \<and> createdAt s = now e \<and>
           expirationTime s = (case expiresAt sd of Some x \<Rightarrow> x | None \<Rightarrow> now e + 30000) \<and>
           (\<forall>xs. freshIds xs d' \<longrightarrow>
              (\<exists>s'. getDoc (sessions (runOperations xs d')) i = Some s' \<and>
                    expirationTime s' = expirationTime s))"
    using g by (intro exI [of _ ?s]) simp
next
  assume gq: "generateQRCode t e t' e' url form d = (Some q, d'')"
  let ?sd = "\<lparr>sessionFacultyId = facultyId form, expiresAt = Some (t + 30000)\<rparr>"
  let ?s = "\<lparr>sessionFacultyId = facultyId form, expiresAt = Some (t + 30000),
              createdAt = now e, isActive = True, qrCodeGenerated = True,
              studentsPresent = Some [], totalStudents = 0, totalPresent = None,
              lastUpdated = None, deactivatedAt = None, qrCodeUrl = None\<rparr>"
  let ?d1 = "snd (createAttendanceSession e ?sd d)"
  from gq have ok: "\<not> addDocFails e" and q: "sessionId q = newId e"
    and d'': "d'' = snd (saveQRCodeToStorage e' url (newId e) ?d1)"
    by (auto simp: generateQRCode_def createAttendanceSession_def split: if_splits)
  have g: "getDoc (sessions ?d1) (newId e) = Some ?s"
    using ok by (simp add: createAttendanceSession_getDoc)
  have "getDoc (sessions d'') (newId e) = Some ?s \<or>
        getDoc (sessions d'') (newId e) = Some (?s\<lparr>qrCodeUrl := Some url, qrCodeGenerated := True\<rparr>)"
    using g by (auto simp: d'' saveQRCodeToStorage_def getDoc_updateDoc split: option.splits)
  then show "\<exists>s. getDoc (sessions d'') (sessionId q) = Some s \<and> isActive s \<and>
           studentsPresent s = Some [] \<and> createdAt s = now e \<and> expirationTime s = t + 30000"
    using q by (auto simp: expirationTime_def)
qed

theorem session_creation_witness:
  "createAttendanceSession (exEnv 1000 ''s1'') \<lparr>sessionFacultyId = ''f1'', expiresAt = Some 31000\<rparr> emptyDb
     = (Success ''s1'', exDb) \<and>
   freshIds exOperations exDb \<and>
   map_option isActive (getDoc (sessions exDb) ''s1'') = Some True \<and>
   map_option expirationTime (getDoc (sessions exDb) ''s1'') = Some 31000 \<and>
   map_option expirationTime (getDoc (sessions (runOperations exOperations exDb)) ''s1'') = Some 31000 \<and>
   fst (generateQRCode 1000 (exEnv 1005 ''s1'') 1010 (exEnv 1020 ''x'') ''qr.png'' exForm emptyDb) =
     Some (exPayload ''s1'' 1010) \<and>
   map_option expirationTime
     (getDoc (sessions (snd (generateQRCode 1000 (exEnv 1005 ''s1'') 1010 (exEnv 1020 ''x'') ''qr.png''
        exForm emptyDb))) ''s1'') = Some 31000"
proof -
  have c: "createAttendanceSession (exEnv 1000 ''s1'') \<lparr>sessionFacultyId = ''f1'', expiresAt = Some 31000\<rparr> emptyDb
     = (Success ''s1'', exDb)"
    by (simp add: exDb_def createAttendanceSession_def exEnv_def)
  have f: "freshIds exOperations exDb"
    by (simp add: exOperations_def exDb_def emptyDb_def createAttendanceSession_def getDoc_def exEnv_def)
  have gq1: "fst (generateQRCode 1000 (exEnv 1005 ''s1'') 1010 (exEnv 1020 ''x'') ''qr.png'' exForm emptyDb) =
     Some (exPayload ''s1'' 1010)"
    by (simp add: generateQRCode_def exForm_def exEnv_def exPayload_def createAttendanceSession_def)
  then have gq: "generateQRCode 1000 (exEnv 1005 ''s1'') 1010 (exEnv 1020 ''x'') ''qr.png'' exForm emptyDb =
     (Some (exPayload ''s1'' 1010),
      snd (generateQRCode 1000 (exEnv 1005 ''s1'') 1010 (exEnv 1020 ''x'') ''qr.png'' exForm emptyDb))"
    by (simp add: prod_eq_iff)
  have sid: "sessionId (exPayload ''s1'' 1010) = ''s1''" by (simp add: exPayload_def)
  from session_creation [THEN conjunct1, rule_format, OF c]
  obtain s where s: "getDoc (sessions exDb) ''s1'' = Some s" and "isActive s"
    and ex: "expirationTime s = 31000"
    and later: "\<forall>xs. freshIds xs exDb \<longrightarrow>
              (\<exists>s'. getDoc (sessions (runOperations xs exDb)) ''s1'' = Some s' \<and>
                    expirationTime s' = expirationTime s)"
    by auto
  moreover from later f ex
  have "map_option expirationTime (getDoc (sessions (runOperations exOperations exDb)) ''s1'') = Some 31000"
    by auto
  moreover from session_creation [THEN conjunct2, rule_format, OF gq]
  have "map_option expirationTime
     (getDoc (sessions (snd (generateQRCode 1000 (exEnv 1005 ''s1'') 1010 (exEnv 1020 ''x'') ''qr.png''
        exForm emptyDb))) ''s1'') = Some 31000"
    using sid by auto
  ultimately show ?thesis using c f gq1 by simp
qed

section \<open>The rotation engine\<close>

lemma rotationIndexOf_generate [simp]: "rotationIndexOf (generateQRWithEntropy en b k) = k"
  by (simp add: rotationIndexOf_def generateQRWithEntropy_def)

lemma sessionTimerTick_fields [simp]:
  "totalRotations (sessionTimerTick g) = totalRotations g"
  "baseData (sessionTimerTick g) = baseData g"
  by (simp_all add: sessionTimerTick_def Let_def)

lemma sessionTimerTick_inactive: "\<not> genIsActive g \<Longrightarrow> sessionTimerTick g = g"
  by (simp add: sessionTimerTick_def)

lemma rotationTimerTick_inactive: "\<not> genIsActive g \<Longrightarrow> rotationTimerTick en g = (g, None)"
  by (simp add: rotationTimerTick_def split: option.splits)

lemma closeModal_inactive [simp]: "\<not> genIsActive (closeModal g)"
  by (simp add: closeModal_def)

text \<open>Once the session is inactive, no event generates a payload or changes the rotation count.\<close>

lemma runGenerator_inactive:
  "\<not> genIsActive g \<Longrightarrow>
     snd (runGenerator evs g) = [] \<and> \<not> genIsActive (fst (runGenerator evs g))"
proof (induction evs arbitrary: g)
  case Nil
  then show ?case by simp
next
  case (Cons ev evs)
  then show ?case
    by (cases ev) (simp_all add: sessionTimerTick_inactive rotationTimerTick_inactive split_beta)
qed









lemma showNat_1000: "showNat 1000 = ''1000''"
  by code_simp

lemma exStart_eval:
  "exStart =
     (\<lparr>genIsActive = True, timeLeft = 30, qrRotationTimer = 5, totalRotations = 0,
       baseData = Some \<lparr>sessionId = ''session_1000_abcdefghijkl_mnopqrst'', facultyId = ''f1'',
         school = ''sot'', batch = ''sot24b1'', subject = ''java'', periods = 1, generatedAt = 1000,
         offlineExpiresAt = 31000\<rparr>,
       qrData = Some exIssued\<rparr>, Some exIssued)"
  by (simp add: exStart_def offlineGenerateQRCode_def exInput_def idleGenerator_def exIssued_def
      Let_def showNat_1000)

lemma exTicks_30:
  "timeLeft (fst (runGenerator (exTicks 30) (fst exStart))) = 0 \<and>
   map rotationIndexOf (snd (runGenerator (exTicks 30) (fst exStart))) = [1, 2, 3, 4, 5, 6]"
  by (simp add: exStart_eval exTicks_def upt_conv_Cons rotationTimerTick_def sessionTimerTick_def
      Let_def del: upt_Suc)




section \<open>The scan\<close>

lemma onScanSuccess_Some:
  "onScanSuccess t (Some q) =
     (if \<not> wellFormed q then InvalidQR
      else case timestamp q of
             TsAt qt \<Rightarrow> if 30000 < t - qt then ExpiredQR else Scanned q
           | _ \<Rightarrow> Scanned q)"
  by (simp add: onScanSuccess_def wellFormed_def)

lemma accepted_iff:
  "accepted (onScanSuccess t (Some q)) =
     (wellFormed q \<and> (\<forall>qt. timestamp q = TsAt qt \<longrightarrow> t - qt \<le> 30000))"
  by (auto simp: onScanSuccess_Some accepted_def split: timestamp_field.splits)

lemma scanned_fresh:
  "wellFormed q \<Longrightarrow> timestamp q = TsAt qt \<Longrightarrow> t - qt \<le> 30000 \<Longrightarrow>
     onScanSuccess t (Some q) = Scanned q"
  by (simp add: onScanSuccess_Some)

lemma exIssued_eval:
  "exIssued =
     \<lparr>sessionId = ''session_1000_abcdefghijkl_mnopqrst'', facultyId = ''f1'', school = ''sot'',
      batch = ''sot24b1'', subject = ''java'', periods = 1, timestamp = TsAt 1000,
      qrExpiresAt = Some 31000,
      rotation = Some \<lparr>rotationIndex = 0, rotationSalt = ''z7y6'', randomSalt = ''k3j9x2m1q8'',
                        microseconds = ''1234.5'', checksum = ''c2Vzc2lvbl8x''\<rparr>\<rparr>"
  by (simp add: exIssued_def generateQRWithEntropy_def exEntropy_def) code_simp

lemma exFinal_eval:
  "exFinal =
     \<lparr>sessionId = ''session_1000_abcdefghijkl_mnopqrst'', facultyId = ''f1'', school = ''sot'',
      batch = ''sot24b1'', subject = ''java'', periods = 1, timestamp = TsAt 26000,
      qrExpiresAt = Some 31000,
      rotation = Some \<lparr>rotationIndex = 5, rotationSalt = ''z7y6'', randomSalt = ''k3j9x2m1q8'',
                        microseconds = ''1234.5'', checksum = ''c2Vzc2lvbl8x''\<rparr>\<rparr>"
  by (simp add: exFinal_def generateQRWithEntropy_def exEntropy_def) code_simp

lemma exTicks_25: "last (snd (runGenerator (exTicks 25) (fst exStart))) = exFinal"
proof -
  have five: "Suc (Suc (Suc (Suc (Suc 0)))) = 5" by simp
  show ?thesis
    by (simp add: exStart_eval exTicks_def upt_conv_Cons rotationTimerTick_def sessionTimerTick_def
        exFinal_def Let_def five del: upt_Suc)
qed

lemma exTicks_6:
  "totalRotations (fst (runGenerator (exTicks 6) (fst exStart))) = 1 \<and>
   genIsActive (fst (runGenerator (exTicks 6) (fst exStart)))"
  by (simp add: exStart_eval exTicks_def upt_conv_Cons rotationTimerTick_def sessionTimerTick_def
      Let_def del: upt_Suc)


text \<open>
  Claim C2 says that no scan is accepted from the session's expiration time on. The scanner
  compares the clock with the timestamp of the scanned payload only. For the session started at
  1000, whose countdown ends at 31000: the first payload, scanned at 31000, is accepted; and the
  payload of the fifth rotation, generated at 26000, is accepted at 41000, ten seconds after the
  session has expired.
\<close>

theorem expired_session_scan_counterexample:
  "timestamp exIssued = TsAt 1000 \<and> qrExpiresAt exIssued = Some 31000 \<and>
   onScanSuccess 31000 (Some exIssued) = Scanned exIssued \<and>
   timeLeft (fst (runGenerator (exTicks 30) (fst exStart))) = 0 \<and>
   last (snd (runGenerator (exTicks 25) (fst exStart))) = exFinal \<and>
   rotationIndexOf exFinal = 5 \<and> timestamp exFinal = TsAt 26000 \<and>
   onScanSuccess 41000 (Some exFinal) = Scanned exFinal"
proof -
  have "onScanSuccess 31000 (Some exIssued) = Scanned exIssued"
    by (rule scanned_fresh [of _ 1000]) (simp_all add: exIssued_eval wellFormed_def)
  moreover have "onScanSuccess 41000 (Some exFinal) = Scanned exFinal"
    by (rule scanned_fresh [of _ 26000]) (simp_all add: exFinal_eval wellFormed_def)
  moreover have "rotationIndexOf exFinal = 5 \<and> timestamp exFinal = TsAt 26000"
    by (simp add: exFinal_eval rotationIndexOf_def)
  moreover have "timestamp exIssued = TsAt 1000 \<and> qrExpiresAt exIssued = Some 31000"
    by (simp add: exIssued_eval)
  ultimately show ?thesis using exTicks_30 exTicks_25 by simp
qed

text \<open>
  Claim C2 as amended. A payload that passes the structure test and carries the timestamp
  \<open>qt\<close> is rejected as expired exactly by the scans made more than 30 seconds after \<open>qt\<close>, and
  is accepted by every scan up to then: what counts is the age of the payload scanned, not the
  creation or expiration time of its session.
\<close>

theorem scan_expiry:
  assumes "wellFormed q" and "timestamp q = TsAt qt"
  shows "(onScanSuccess t (Some q) = ExpiredQR) = (30000 < t - qt) \<and>
         (t - qt \<le> 30000 \<longrightarrow> onScanSuccess t (Some q) = Scanned q)"
  using assms by (simp add: onScanSuccess_Some)

theorem scan_expiry_witness:
  "wellFormed exIssued \<and> timestamp exIssued = TsAt 1000 \<and>
   onScanSuccess 31001 (Some exIssued) = ExpiredQR \<and>
   onScanSuccess 31000 (Some exIssued) = Scanned exIssued"
proof -
  have w: "wellFormed exIssued" and ts: "timestamp exIssued = TsAt 1000"
    by (simp_all add: exIssued_eval wellFormed_def)
  from scan_expiry [OF w ts, of 31001] scan_expiry [OF w ts, of 31000] w ts
  show ?thesis by simp
qed

section \<open>Superseded and changed payloads\<close>

lemma generate_wellFormed:
  "sessionId b \<noteq> [] \<Longrightarrow> facultyId b \<noteq> [] \<Longrightarrow> wellFormed (generateQRWithEntropy en b k)"
  by (simp add: wellFormed_def generateQRWithEntropy_def)

text \<open>The session data of a running generator, if any, names a session and a faculty.\<close>

lemma rotationTimerTick_wellFormed:
  assumes "\<forall>b. baseData g = Some b \<longrightarrow> sessionId b \<noteq> [] \<and> facultyId b \<noteq> []"
  shows "(\<forall>q. snd (rotationTimerTick en g) = Some q \<longrightarrow> wellFormed q) \<and>
         baseData (fst (rotationTimerTick en g)) = baseData g"
  using assms
  by (auto simp: rotationTimerTick_def Let_def generate_wellFormed split: option.splits)

lemma runGenerator_wellFormed:
  "\<forall>b. baseData g = Some b \<longrightarrow> sessionId b \<noteq> [] \<and> facultyId b \<noteq> [] \<Longrightarrow>
     \<forall>q\<in>set (snd (runGenerator evs g)). wellFormed q"
proof (induction evs arbitrary: g)
  case Nil
  then show ?case by simp
next
  case (Cons ev evs)
  show ?case
  proof (cases ev)
    case SessionTimer
    with Cons.IH [of "sessionTimerTick g"] Cons.prems show ?thesis by simp
  next
    case CloseModal
    with runGenerator_inactive [of "closeModal g" evs] show ?thesis by simp
  next
    case (RotationTimer en)
    from rotationTimerTick_wellFormed [OF Cons.prems, of en]
    have w: "\<forall>q. snd (rotationTimerTick en g) = Some q \<longrightarrow> wellFormed q"
      and b: "baseData (fst (rotationTimerTick en g)) = baseData g" by simp_all
    from Cons.IH [of "fst (rotationTimerTick en g)"] b Cons.prems
    have "\<forall>q\<in>set (snd (runGenerator evs (fst (rotationTimerTick en g)))). wellFormed q" by simp
    with w RotationTimer show ?thesis
      by (auto simp: split_beta split: option.splits)
  qed
qed

lemma offlineGenerateQRCode_wellFormed:
  assumes "offlineGenerateQRCode i en g = (g1, Some q0)"
  shows "wellFormed q0 \<and> (\<forall>b. baseData g1 = Some b \<longrightarrow> sessionId b \<noteq> [] \<and> facultyId b \<noteq> [])"
  using assms
  by (auto simp: offlineGenerateQRCode_def Let_def generate_wellFormed split: if_splits)

text \<open>
  Claim C3 says that a payload of rotation N is rejected as stale once the session has
  advanced to rotation N+1. The scanner has no such rejection: seven seconds into the session
  started at 1000 the generator is active at rotation 1, and the payload of rotation 0 is
  accepted.
\<close>

theorem stale_payload_counterexample:
  "rotationIndexOf exIssued = 0 \<and> snd exStart = Some exIssued \<and>
   totalRotations (fst (runGenerator (exTicks 6) (fst exStart))) = 1 \<and>
   genIsActive (fst (runGenerator (exTicks 6) (fst exStart))) \<and>
   onScanSuccess 7500 (Some exIssued) = Scanned exIssued"
proof -
  have "onScanSuccess 7500 (Some exIssued) = Scanned exIssued"
    by (rule scanned_fresh [of _ 1000]) (simp_all add: exIssued_eval wellFormed_def)
  moreover have "rotationIndexOf exIssued = 0"
    by (simp add: exIssued_eval rotationIndexOf_def)
  moreover have "snd exStart = Some exIssued" by (simp add: exStart_eval)
  ultimately show ?thesis using exTicks_6 by simp
qed

text \<open>
  Claim C3 as amended. The scan does not compare rotation indices. Every payload that a
  session of the rotating generator has generated, of whatever rotation and however far the
  generator has rotated since, is accepted by every scan made no later than 30 seconds after
  the payload's own timestamp.
\<close>

theorem superseded_payload_accepted:
  assumes "offlineGenerateQRCode i en g = (g1, Some q0)"
    and "q \<in> set (q0 # snd (runGenerator evs g1))"
    and "timestamp q = TsAt qt" and "t - qt \<le> 30000"
  shows "onScanSuccess t (Some q) = Scanned q"
proof -
  from offlineGenerateQRCode_wellFormed [OF assms(1)] runGenerator_wellFormed [of g1 evs] assms(2)
  have "wellFormed q" by auto
  then show ?thesis using assms(3,4) by (rule scanned_fresh)
qed

theorem superseded_payload_accepted_witness:
  "offlineGenerateQRCode exInput (exEntropy 1000) idleGenerator = (fst exStart, Some exIssued) \<and>
   exIssued \<in> set (exIssued # snd (runGenerator (exTicks 6) (fst exStart))) \<and>
   timestamp exIssued = TsAt 1000 \<and>
   totalRotations (fst (runGenerator (exTicks 6) (fst exStart))) = 1 \<and>
   onScanSuccess 7500 (Some exIssued) = Scanned exIssued"
proof -
  have st: "offlineGenerateQRCode exInput (exEntropy 1000) idleGenerator = (fst exStart, Some exIssued)"
    using exStart_eval by (simp add: exStart_def)
  have m: "exIssued \<in> set (exIssued # snd (runGenerator (exTicks 6) (fst exStart)))" by simp
  have ts: "timestamp exIssued = TsAt 1000" by (simp add: exIssued_eval)
  have "(7500::int) - 1000 \<le> 30000" by simp
  from superseded_payload_accepted [OF st m ts this] st ts exTicks_6
  show ?thesis by simp
qed

text \<open>
  Claim C4 says that the validator recomputes the checksum and rejects a payload in which a
  field has been changed. The scanner never reads the checksum. The first payload of the
  session carries the checksum of its fields; with another session identifier, another
  checksum, another nonce or another rotation index put in, it is accepted all the same, also
  where the checksum it carries is not the one of its fields.
\<close>

theorem tampered_payload_counterexample:
  "checksumMatches exIssued \<and> onScanSuccess 2000 (Some exIssued) = Scanned exIssued \<and>
   \<not> checksumMatches exForged \<and> onScanSuccess 2000 (Some exForged) = Scanned exForged \<and>
   \<not> checksumMatches (withChecksum ''AAAAAAAAAAAA'' exIssued) \<and>
   accepted (onScanSuccess 2000 (Some (withChecksum ''AAAAAAAAAAAA'' exIssued))) \<and>
   accepted (onScanSuccess 2000 (Some (withNonce ''forged'' exIssued))) \<and>
   accepted (onScanSuccess 2000 (Some (withRotationIndex 9 exIssued)))"
proof -
  have "checksumMatches exIssued"
    by (simp add: exIssued_eval checksumMatches_def recomputedChecksum_def) code_simp
  moreover have "\<not> checksumMatches exForged"
    by (simp add: exForged_def exIssued_eval checksumMatches_def recomputedChecksum_def) code_simp
  moreover have "\<not> checksumMatches (withChecksum ''AAAAAAAAAAAA'' exIssued)"
    by (simp add: withChecksum_def exIssued_eval checksumMatches_def recomputedChecksum_def) code_simp
  moreover have "onScanSuccess 2000 (Some exIssued) = Scanned exIssued"
    by (rule scanned_fresh [of _ 1000]) (simp_all add: exIssued_eval wellFormed_def)
  moreover have "onScanSuccess 2000 (Some exForged) = Scanned exForged"
    by (rule scanned_fresh [of _ 1000]) (simp_all add: exForged_def exIssued_eval wellFormed_def)
  moreover have "accepted (onScanSuccess 2000 (Some (withChecksum ''AAAAAAAAAAAA'' exIssued)))"
    by (simp add: accepted_iff withChecksum_def exIssued_eval wellFormed_def)
  moreover have "accepted (onScanSuccess 2000 (Some (withNonce ''forged'' exIssued)))"
    by (simp add: accepted_iff withNonce_def exIssued_eval wellFormed_def)
  moreover have "accepted (onScanSuccess 2000 (Some (withRotationIndex 9 exIssued)))"
    by (simp add: accepted_iff withRotationIndex_def exIssued_eval wellFormed_def)
  ultimately show ?thesis by simp
qed

text \<open>
  Claim C4 as amended. Whether a scan accepts a payload does not depend on the payload's
  checksum, nonce or rotation index, nor on which non-empty session identifier it carries: a
  payload changed in any of these fields is accepted exactly when the unchanged one is.
\<close>

theorem scan_ignores_checksum:
  "accepted (onScanSuccess t (Some (q\<lparr>rotation := r\<rparr>))) = accepted (onScanSuccess t (Some q)) \<and>
   accepted (onScanSuccess t (Some (withChecksum c q))) = accepted (onScanSuccess t (Some q)) \<and>
   accepted (onScanSuccess t (Some (withNonce n q))) = accepted (onScanSuccess t (Some q)) \<and>
   accepted (onScanSuccess t (Some (withRotationIndex k q))) = accepted (onScanSuccess t (Some q)) \<and>
   (i \<noteq> [] \<and> sessionId q \<noteq> [] \<longrightarrow>
      accepted (onScanSuccess t (Some (q\<lparr>sessionId := i\<rparr>))) = accepted (onScanSuccess t (Some q)))"
  by (simp add: accepted_iff wellFormed_def withChecksum_def withNonce_def withRotationIndex_def)

theorem scan_ignores_checksum_witness:
  "''other_session'' \<noteq> [] \<and> sessionId exIssued \<noteq> [] \<and>
   accepted (onScanSuccess 2000 (Some exIssued)) \<and>
   accepted (onScanSuccess 2000 (Some (exIssued\<lparr>sessionId := ''other_session''\<rparr>)))"
proof -
  have a: "accepted (onScanSuccess 2000 (Some exIssued))"
    by (simp add: accepted_iff exIssued_eval wellFormed_def)
  have s: "sessionId exIssued \<noteq> []" by (simp add: exIssued_eval)
  from scan_ignores_checksum [where t = 2000 and q = exIssued and i = "''other_session''"] a s
  show ?thesis by simp
qed

section \<open>Scans and the session store\<close>

lemma recordsFor_markAttendance:
  "\<not> addDocFails e \<Longrightarrow>
     recordsFor i u (snd (markAttendance e a d)) =
       recordsFor i u d @ (if sessionId a = i \<and> studentId a = u then [newAttendanceDoc e a] else [])"
  using markAttendance_attendance [of e a d]
  by (simp add: recordsFor_def newAttendanceDoc_def)

lemma markAttendance_isActive:
  "getDoc (sessions d) j = Some s \<Longrightarrow>
     \<exists>s'. getDoc (sessions (snd (markAttendance e a d))) j = Some s' \<and> isActive s' = isActive s"
  by (auto simp: markAttendance_getDoc)

text \<open>
  Claim C5 says that a scan is rejected when the session store has no session of the
  payload's identifier, and when the session has been deactivated. The scanner does not read
  the store. A payload naming a session that does not exist is accepted and the submission
  that follows returns success; and after session \<open>''s1''\<close> has been deactivated at 10000, its
  payload of time 1000 is accepted at 11000, and the submission returns success and enters the
  student in the deactivated session.
\<close>

theorem unknown_session_counterexample:
  "getDoc (sessions emptyDb) ''ghost'' = None \<and>
   onScanSuccess 2000 (Some (exPayload ''ghost'' 1500)) = Scanned (exPayload ''ghost'' 1500) \<and>
   fst (submitAttendance (exEnv 2500 ''r1'') ''u1'' ''Student'' ''photo.jpg''
          (exPayload ''ghost'' 1500) emptyDb) = Success () \<and>
   map_option isActive (getDoc (sessions exDbDeactivated) ''s1'') = Some False \<and>
   onScanSuccess 11000 (Some (exPayload ''s1'' 1000)) = Scanned (exPayload ''s1'' 1000) \<and>
   fst (submitAttendance (exEnv 12000 ''r1'') ''u1'' ''Student'' ''photo.jpg''
          (exPayload ''s1'' 1000) exDbDeactivated) = Success () \<and>
   map_option presentIds
     (getDoc (sessions (snd (submitAttendance (exEnv 12000 ''r1'') ''u1'' ''Student'' ''photo.jpg''
        (exPayload ''s1'' 1000) exDbDeactivated))) ''s1'') = Some [''u1'']"
proof -
  have "onScanSuccess 2000 (Some (exPayload ''ghost'' 1500)) = Scanned (exPayload ''ghost'' 1500)"
    by (rule scanned_fresh [of _ 1500]) (simp_all add: exPayload_def wellFormed_def)
  moreover have "onScanSuccess 11000 (Some (exPayload ''s1'' 1000)) = Scanned (exPayload ''s1'' 1000)"
    by (rule scanned_fresh [of _ 1000]) (simp_all add: exPayload_def wellFormed_def)
  moreover have "getDoc (sessions emptyDb) ''ghost'' = None"
    by (simp add: emptyDb_def getDoc_def)
  moreover have "fst (submitAttendance (exEnv 2500 ''r1'') ''u1'' ''Student'' ''photo.jpg''
          (exPayload ''ghost'' 1500) emptyDb) = Success ()"
    by (simp add: submitAttendance_def exEnv_def exPayload_def emptyDb_def markAttendance_def
        getDoc_def Let_def)
  moreover have "map_option isActive (getDoc (sessions exDbDeactivated) ''s1'') = Some False"
    by (simp add: exDbDeactivated_eval getDoc_def)
  moreover have "fst (submitAttendance (exEnv 12000 ''r1'') ''u1'' ''Student'' ''photo.jpg''
          (exPayload ''s1'' 1000) exDbDeactivated) = Success ()"
    by (simp add: submitAttendance_def exEnv_def exPayload_def exDbDeactivated_eval
        markAttendance_def getDoc_def updateDoc_def presentList_def Let_def)
  moreover have "map_option presentIds
     (getDoc (sessions (snd (submitAttendance (exEnv 12000 ''r1'') ''u1'' ''Student'' ''photo.jpg''
        (exPayload ''s1'' 1000) exDbDeactivated))) ''s1'') = Some [''u1'']"
    by (simp add: submitAttendance_def exEnv_def exPayload_def exDbDeactivated_eval
        markAttendance_def getDoc_def updateDoc_def presentList_def presentIds_def
        newPresentEntry_def Let_def)
  ultimately show ?thesis by simp
qed

text \<open>
  Claim C5 as amended. The outcome of a scan is determined by the decoded payload and the clock
  alone. A payload that passes the structure test and is at most 30 seconds old is accepted
  whatever the session store holds, be the session unknown or deactivated; the submission
  that follows, with no upload or Firestore failure, returns success and adds one attendance
  document, and if the session exists, active or not, it lists the student afterwards with
  its \<^verbatim>\<open>isActive\<close> flag unchanged.
\<close>

theorem scan_ignores_store:
  assumes "wellFormed q" and "timestamp q = TsAt qt" and "t - qt \<le> 30000"
    and "noFaults e" and "\<not> uploadFails e"
  shows "onScanSuccess t (Some q) = Scanned q \<and>
         fst (submitAttendance e uid name url q d) = Success () \<and>
         length (recordsFor (sessionId q) uid (snd (submitAttendance e uid name url q d))) =
           Suc (length (recordsFor (sessionId q) uid d)) \<and>
         (\<forall>s. getDoc (sessions d) (sessionId q) = Some s \<longrightarrow>
            (\<exists>s'. getDoc (sessions (snd (submitAttendance e uid name url q d))) (sessionId q) = Some s' \<and>
                  isActive s' = isActive s \<and> uid \<in> set (presentIds s')))"
proof -
  let ?a = "\<lparr>sessionId = sessionId q, facultyId = facultyId q, school = school q,
              batch = batch q, subject = subject q, periods = periods q,
              studentId = uid, studentName = name, photoUrl = url\<rparr>"
  have sub: "submitAttendance e uid name url q d = markAttendance e ?a d"
    using assms(5) by (simp add: submitAttendance_def)
  have sid: "sessionId q \<noteq> []" using assms(1) by (simp add: wellFormed_def)
  have ok: "fst (markAttendance e ?a d) = Success ()"
    using assms(4) by (rule markAttendance_success)
  have add: "\<not> addDocFails e" using assms(4) by (simp add: noFaults_def)
  have len: "length (recordsFor (sessionId q) uid (snd (markAttendance e ?a d))) =
           Suc (length (recordsFor (sessionId q) uid d))"
    using recordsFor_markAttendance [OF add, of "sessionId q" uid ?a d] by simp
  have "\<forall>s. getDoc (sessions d) (sessionId q) = Some s \<longrightarrow>
            (\<exists>s'. getDoc (sessions (snd (markAttendance e ?a d))) (sessionId q) = Some s' \<and>
                  isActive s' = isActive s \<and> uid \<in> set (presentIds s'))"
  proof (intro allI impI)
    fix s
    assume g: "getDoc (sessions d) (sessionId q) = Some s"
    from markAttendance_isActive [OF g, of e ?a]
    obtain s' where s': "getDoc (sessions (snd (markAttendance e ?a d))) (sessionId q) = Some s'"
      and act: "isActive s' = isActive s" by blast
    from markAttendance_recorded [OF assms(4), of ?a d s'] s' sid
    have "uid \<in> set (presentIds s')" by simp
    with s' act show "\<exists>s'. getDoc (sessions (snd (markAttendance e ?a d))) (sessionId q) = Some s' \<and>
                  isActive s' = isActive s \<and> uid \<in> set (presentIds s')" by blast
  qed
  with scanned_fresh [OF assms(1,2,3)] ok len sub show ?thesis by simp
qed

theorem scan_ignores_store_witness:
  "wellFormed (exPayload ''s1'' 1000) \<and> timestamp (exPayload ''s1'' 1000) = TsAt 1000 \<and>
   noFaults (exEnv 12000 ''r1'') \<and> \<not> uploadFails (exEnv 12000 ''r1'') \<and>
   map_option isActive (getDoc (sessions exDbDeactivated) ''s1'') = Some False \<and>
   onScanSuccess 11000 (Some (exPayload ''s1'' 1000)) = Scanned (exPayload ''s1'' 1000) \<and>
   fst (submitAttendance (exEnv 12000 ''r1'') ''u1'' ''Student'' ''photo.jpg''
          (exPayload ''s1'' 1000) exDbDeactivated) = Success () \<and>
   length (recordsFor ''s1'' ''u1''
     (snd (submitAttendance (exEnv 12000 ''r1'') ''u1'' ''Student'' ''photo.jpg''
        (exPayload ''s1'' 1000) exDbDeactivated))) = 1"
proof -
  have w: "wellFormed (exPayload ''s1'' 1000)" and ts: "timestamp (exPayload ''s1'' 1000) = TsAt 1000"
    by (simp_all add: exPayload_def wellFormed_def)
  have age: "(11000::int) - 1000 \<le> 30000" by simp
  have nf: "noFaults (exEnv 12000 ''r1'')" and up: "\<not> uploadFails (exEnv 12000 ''r1'')"
    by (simp_all add: noFaults_def exEnv_def)
  have sid: "sessionId (exPayload ''s1'' 1000) = ''s1''" by (simp add: exPayload_def)
  have r0: "recordsFor ''s1'' ''u1'' exDbDeactivated = []"
    by (simp add: exDbDeactivated_eval recordsFor_def)
  have act: "map_option isActive (getDoc (sessions exDbDeactivated) ''s1'') = Some False"
    by (simp add: exDbDeactivated_eval getDoc_def)
  from scan_ignores_store [OF w ts age nf up, of "''u1''" "''Student''" "''photo.jpg''" exDbDeactivated]
    w ts nf up sid r0 act
  show ?thesis by simp
qed

end
